theory Spec2Isabelle
  imports Complex_Main "HOL-Library.Sublist" "HOL-Library.Char_ord"
begin

section \<open>Values of the harness\<close>

text \<open>
  The harness (\<^verbatim>\<open>test-ai-extraction.py\<close>) handles decoded JSON: \<^verbatim>\<open>None\<close>, booleans,
  integers, floats, strings, lists and dictionaries. A Python float is an IEEE-754
  binary64 value: a finite one is a (dyadic) rational, and Python compares floats, and
  floats with integers, by their exact value, so a finite float is modelled by the rational
  it denotes. The JSON decoder of Python also accepts \<^verbatim>\<open>Infinity\<close>, \<^verbatim>\<open>-Infinity\<close> and
  \<^verbatim>\<open>NaN\<close>. A dictionary is an association list in insertion order with distinct keys.
  A string is the list of the bytes of its UTF-8 encoding; the JSON decoder also returns
  strings with a lone surrogate (from an escape such as \<^verbatim>\<open>"\ud800"\<close>), and such a code point
  is the three bytes that the \<^verbatim>\<open>surrogatepass\<close> handler writes for it: \<^verbatim>\<open>ED\<close>, a byte from
  \<^verbatim>\<open>A0\<close> to \<^verbatim>\<open>BF\<close>, and a third byte.
\<close>

datatype pyfloat = Fin rat | PosInf | NegInf | NaN

datatype pyval =
    PNone
  | PBool bool
  | PInt int
  | PFloat pyfloat
  | PStr string
  | PList "pyval list"
  | PDict "(string \<times> pyval) list"

type_synonym pydict = "(string \<times> pyval) list"

text \<open>Every exception carries its message, which is what \<^verbatim>\<open>str(e)\<close> returns.\<close>

datatype py_exception =
    AttributeError string
  | TypeError string
  | ValueError string
  | KeyError string
  | RequestException string
  | UnicodeEncodeError string

fun str_exc :: "py_exception \<Rightarrow> string" where
  "str_exc (AttributeError m) = m"
| "str_exc (TypeError m) = m"
| "str_exc (ValueError m) = m"
| "str_exc (KeyError m) = m"
| "str_exc (RequestException m) = m"
| "str_exc (UnicodeEncodeError m) = m"

fun type_name :: "pyval \<Rightarrow> string" where
  "type_name PNone = ''NoneType''"
| "type_name (PBool b) = ''bool''"
| "type_name (PInt i) = ''int''"
| "type_name (PFloat f) = ''float''"
| "type_name (PStr s) = ''str''"
| "type_name (PList xs) = ''list''"
| "type_name (PDict d) = ''dict''"

subsection \<open>Truth value, comparison and equality of Python\<close>

text \<open>\<^verbatim>\<open>bool(v)\<close>: what \<^verbatim>\<open>if v\<close> and \<^verbatim>\<open>v and ...\<close> test.\<close>

fun truthy :: "pyval \<Rightarrow> bool" where
  "truthy PNone = False"
| "truthy (PBool b) = b"
| "truthy (PInt i) = (i \<noteq> 0)"
| "truthy (PFloat f) = (f \<noteq> Fin 0)"
| "truthy (PStr s) = (s \<noteq> [])"
| "truthy (PList xs) = (xs \<noteq> [])"
| "truthy (PDict d) = (d \<noteq> [])"

fun float_lt :: "pyfloat \<Rightarrow> pyfloat \<Rightarrow> bool" where
  "float_lt NaN y = False"
| "float_lt x NaN = False"
| "float_lt (Fin a) (Fin b) = (a < b)"
| "float_lt (Fin a) PosInf = True"
| "float_lt NegInf (Fin b) = True"
| "float_lt NegInf PosInf = True"
| "float_lt x y = False"

definition float_eq :: "pyfloat \<Rightarrow> pyfloat \<Rightarrow> bool" where
  "float_eq x y = (x \<noteq> NaN \<and> x = y)"

text \<open>The numeric value of a number; \<^verbatim>\<open>bool\<close> is a subclass of \<^verbatim>\<open>int\<close>.\<close>

fun num_of :: "pyval \<Rightarrow> pyfloat option" where
  "num_of (PBool b) = Some (Fin (if b then 1 else 0))"
| "num_of (PInt i) = Some (Fin (of_int i))"
| "num_of (PFloat f) = Some f"
| "num_of v = None"

definition cmp_msg :: "string \<Rightarrow> pyval \<Rightarrow> string" where
  "cmp_msg opr v =
     [CHR 0x27] @ opr @ [CHR 0x27] @ '' not supported between instances of '' @
     [CHR 0x27] @ type_name v @ [CHR 0x27] @ '' and '' @ [CHR 0x27] @ ''float'' @ [CHR 0x27]"

text \<open>\<^verbatim>\<open>v > t\<close> and \<^verbatim>\<open>v < t\<close> for a float \<^verbatim>\<open>t\<close>: a \<^verbatim>\<open>TypeError\<close> unless \<^verbatim>\<open>v\<close> is a number.\<close>

definition py_gt :: "pyval \<Rightarrow> pyfloat \<Rightarrow> py_exception + bool" where
  "py_gt v t =
     (case num_of v of
        Some x \<Rightarrow> Inr (float_lt t x)
      | None \<Rightarrow> Inl (TypeError (cmp_msg ''>'' v)))"

definition py_lt :: "pyval \<Rightarrow> pyfloat \<Rightarrow> py_exception + bool" where
  "py_lt v t =
     (case num_of v of
        Some x \<Rightarrow> Inr (float_lt x t)
      | None \<Rightarrow> Inl (TypeError (cmp_msg ''<'' v)))"

text \<open>
  \<^verbatim>\<open>a == b\<close>. Numbers are equal when their values are, and \<^verbatim>\<open>NaN\<close> equals nothing; lists
  are compared element by element; dictionaries have equal length and equal values
  under each key; values of different kinds are unequal.
\<close>

fun py_eq :: "pyval \<Rightarrow> pyval \<Rightarrow> bool"
  and py_eq_list :: "pyval list \<Rightarrow> pyval list \<Rightarrow> bool"
  and py_eq_items :: "pydict \<Rightarrow> pydict \<Rightarrow> bool" where
  "py_eq PNone b = (b = PNone)"
| "py_eq (PStr s) b = (b = PStr s)"
| "py_eq (PBool x) b = (case num_of b of Some y \<Rightarrow> float_eq (Fin (if x then 1 else 0)) y | None \<Rightarrow> False)"
| "py_eq (PInt i) b = (case num_of b of Some y \<Rightarrow> float_eq (Fin (of_int i)) y | None \<Rightarrow> False)"
| "py_eq (PFloat f) b = (case num_of b of Some y \<Rightarrow> float_eq f y | None \<Rightarrow> False)"
| "py_eq (PList xs) b = (case b of PList ys \<Rightarrow> py_eq_list xs ys | _ \<Rightarrow> False)"
| "py_eq (PDict d) b = (case b of PDict e \<Rightarrow> length d = length e \<and> py_eq_items d e | _ \<Rightarrow> False)"
| "py_eq_list [] ys = (ys = [])"
| "py_eq_list (x # xs) ys = (case ys of [] \<Rightarrow> False | y # ys' \<Rightarrow> py_eq x y \<and> py_eq_list xs ys')"
| "py_eq_items [] e = True"
| "py_eq_items ((k, v) # d) e =
     (case map_of e k of None \<Rightarrow> False | Some w \<Rightarrow> py_eq v w \<and> py_eq_items d e)"

subsection \<open>Dictionaries and strings\<close>

text \<open>\<^verbatim>\<open>d.get(k)\<close>, \<^verbatim>\<open>d.get(k, default)\<close> and \<^verbatim>\<open>d[k]\<close>.\<close>

definition dict_get :: "pydict \<Rightarrow> string \<Rightarrow> pyval" where
  "dict_get d k = (case map_of d k of None \<Rightarrow> PNone | Some v \<Rightarrow> v)"

definition dict_get_default :: "pydict \<Rightarrow> string \<Rightarrow> pyval \<Rightarrow> pyval" where
  "dict_get_default d k dflt = (case map_of d k of None \<Rightarrow> dflt | Some v \<Rightarrow> v)"

definition dict_index :: "pydict \<Rightarrow> string \<Rightarrow> py_exception + pyval" where
  "dict_index d k =
     (case map_of d k of
        None \<Rightarrow> Inl (KeyError ([CHR 0x27] @ k @ [CHR 0x27]))
      | Some v \<Rightarrow> Inr v)"

definition no_attribute :: "pyval \<Rightarrow> string \<Rightarrow> py_exception" where
  "no_attribute v a =
     AttributeError ([CHR 0x27] @ type_name v @ [CHR 0x27] @ '' object has no attribute '' @
                     [CHR 0x27] @ a @ [CHR 0x27])"

text \<open>\<^verbatim>\<open>v.get(k, default)\<close> on a value that need not be a dictionary.\<close>

definition val_get_default :: "pyval \<Rightarrow> string \<Rightarrow> pyval \<Rightarrow> py_exception + pyval" where
  "val_get_default v k dflt =
     (case v of
        PDict d \<Rightarrow> Inr (dict_get_default d k dflt)
      | _ \<Rightarrow> Inl (no_attribute v ''get''))"

definition startswith :: "string \<Rightarrow> string \<Rightarrow> bool" where
  "startswith s p = prefix p s"

text \<open>\<^verbatim>\<open>a in b\<close> on strings.\<close>

definition str_in :: "string \<Rightarrow> string \<Rightarrow> bool" where
  "str_in a b = sublist a b"

subsection \<open>Console output\<close>

text \<open>
  A line that the harness prints is an f-string: literal text and interpolated values.
  The console is taken to be an open UTF-8 stream with the strict error handler, the
  default of Python: \<^verbatim>\<open>print\<close> then raises exactly when the line holds a surrogate. The
  literal text of the script holds none, and the text of an interpolated value holds one
  only when the value is itself a string with a surrogate: for every other value the text
  is its \<^verbatim>\<open>repr\<close>, which writes a surrogate inside a list or a dictionary as an escape.
\<close>

datatype part = Lit string | Val pyval

fun has_surrogate :: "string \<Rightarrow> bool" where
  "has_surrogate (a # b # s) =
     (a = CHR 0xED \<and> CHR 0xA0 \<le> b \<and> b \<le> CHR 0xBF \<or> has_surrogate (b # s))"
| "has_surrogate s = False"

fun encodable :: "pyval \<Rightarrow> bool" where
  "encodable (PStr s) = (\<not> has_surrogate s)"
| "encodable v = True"

fun part_encodable :: "part \<Rightarrow> bool" where
  "part_encodable (Lit s) = True"
| "part_encodable (Val v) = encodable v"

subsection \<open>Library functions\<close>

text \<open>
  The library functions whose result depends on tables that are not part of the
  harness are parameters of the model: \<^verbatim>\<open>float(s)\<close> (the nearest binary64 value of a
  decimal literal, or a \<^verbatim>\<open>ValueError\<close>), \<^verbatim>\<open>str.lower\<close> (Unicode case mapping), and the
  message of the \<^verbatim>\<open>UnicodeEncodeError\<close> that \<^verbatim>\<open>print\<close> raises for a line (it names the
  character and its position in the line, which depends on how the numbers before it are
  written).
\<close>

record builtins =
  py_float :: "string \<Rightarrow> py_exception + pyfloat"
  py_lower :: "string \<Rightarrow> string"
  py_encode_error :: "part list \<Rightarrow> string"

text \<open>\<^verbatim>\<open>print(f"...")\<close>.\<close>

definition py_print :: "builtins \<Rightarrow> part list \<Rightarrow> py_exception + unit" where
  "py_print B line =
     (if list_all part_encodable line then Inr ()
      else Inl (UnicodeEncodeError (py_encode_error B line)))"

text \<open>\<^verbatim>\<open>v.lower()\<close> on a value that need not be a string.\<close>

definition val_lower :: "builtins \<Rightarrow> pyval \<Rightarrow> py_exception + string" where
  "val_lower B v =
     (case v of
        PStr s \<Rightarrow> Inr (py_lower B s)
      | _ \<Rightarrow> Inl (no_attribute v ''lower''))"

section \<open>The expectation validator\<close>

text \<open>
  One iteration of the loop \<^verbatim>\<open>for key, expected_value in expected.items()\<close> of
  \<^verbatim>\<open>run_test\<close>, in two parts. The first, \<^verbatim>\<open>check_expectation\<close>, is the comparison of the
  iteration with its \<^verbatim>\<open>issues.append\<close>: it returns the issues list after the iteration, or
  the exception that the comparison raises. The second, \<^verbatim>\<open>print_expectation\<close>, is the
  \<^verbatim>\<open>print\<close> of the branch that the comparison took. In the source the \<^verbatim>\<open>print\<close> stands
  between the comparison and the \<^verbatim>\<open>append\<close>; the \<^verbatim>\<open>append\<close> raises nothing and the
  \<^verbatim>\<open>print\<close> does not read the issues list, so the loop runs the \<^verbatim>\<open>print\<close> after the
  check and drops the new list when the \<^verbatim>\<open>print\<close> raises.
\<close>

fun isinstance_str :: "pyval \<Rightarrow> bool" where
  "isinstance_str (PStr s) = True"
| "isinstance_str v = False"

definition check_threshold ::
  "builtins \<Rightarrow> pyval \<Rightarrow> string \<Rightarrow> string \<Rightarrow> string list \<Rightarrow> py_exception + string list" where
  "check_threshold B actual_value key expected_value issues =
     (if startswith expected_value ''>'' then
        (case py_float B (drop 1 expected_value) of
           Inl e \<Rightarrow> Inl e
         | Inr threshold \<Rightarrow>
             (case (if truthy actual_value then py_gt actual_value threshold else Inr False) of
                Inl e \<Rightarrow> Inl e
              | Inr c \<Rightarrow>
                  if c then Inr issues
                  else Inr (issues @ [key @ '' validation failed''])))
      else if startswith expected_value ''<'' then
        (case py_float B (drop 1 expected_value) of
           Inl e \<Rightarrow> Inl e
         | Inr threshold \<Rightarrow>
             (case (if truthy actual_value then py_lt actual_value threshold else Inr False) of
                Inl e \<Rightarrow> Inl e
              | Inr c \<Rightarrow>
                  if c then Inr issues
                  else Inr (issues @ [key @ '' validation failed''])))
      else Inr issues)"

definition check_reasoning ::
  "builtins \<Rightarrow> pydict \<Rightarrow> pyval \<Rightarrow> string list \<Rightarrow> py_exception + string list" where
  "check_reasoning B extraction expected_value issues =
     (case val_lower B expected_value of
        Inl e \<Rightarrow> Inl e
      | Inr needle \<Rightarrow>
          (case val_lower B (dict_get_default extraction ''reasoning'' (PStr [])) of
             Inl e \<Rightarrow> Inl e
           | Inr haystack \<Rightarrow>
               if str_in needle haystack then Inr issues
               else Inr (issues @ [''Reasoning missing expected text''])))"

definition check_expectation ::
  "builtins \<Rightarrow> pydict \<Rightarrow> string \<Rightarrow> pyval \<Rightarrow> string list \<Rightarrow> py_exception + string list" where
  "check_expectation B extraction key expected_value issues =
     (let actual_value = dict_get extraction key in
      if key = ''confidence'' \<and> isinstance_str expected_value then
        (case expected_value of
           PStr s \<Rightarrow> check_threshold B actual_value key s issues
         | _ \<Rightarrow> Inr issues)
      else if key = ''reasoning_contains'' then
        check_reasoning B extraction expected_value issues
      else if py_eq actual_value expected_value then Inr issues
      else Inr (issues @ [key @ '' mismatch'']))"

text \<open>
  The marks of the report lines, U+2713 and U+2717, and the line that an iteration
  prints; \<^verbatim>\<open>ok\<close> says that the iteration took a branch that records no issue. A confidence
  string without comparator prints nothing.
\<close>

definition tick :: string where
  "tick = [CHR 0xE2, CHR 0x9C, CHR 0x93]"

definition cross :: string where
  "cross = [CHR 0xE2, CHR 0x9C, CHR 0x97]"

definition print_expectation ::
  "builtins \<Rightarrow> pydict \<Rightarrow> string \<Rightarrow> pyval \<Rightarrow> bool \<Rightarrow> py_exception + unit" where
  "print_expectation B extraction key expected_value ok =
     (let actual_value = dict_get extraction key;
          mark = ''  '' @ (if ok then tick else cross) @ '' ''
      in
      if key = ''confidence'' \<and> isinstance_str expected_value then
        (case expected_value of
           PStr s \<Rightarrow>
             if startswith s ''>'' \<or> startswith s ''<'' then
               py_print B [Lit mark, Val (PStr key), Lit '': '', Val actual_value,
                           Lit '' (expected '', Val expected_value, Lit '')'']
             else Inr ()
         | _ \<Rightarrow> Inr ())
      else if key = ''reasoning_contains'' then
        py_print B [Lit (mark @ (if ok then ''reasoning contains ''
                                 else ''reasoning does NOT contain '') @ [CHR 0x27]),
                    Val expected_value, Lit [CHR 0x27]]
      else if ok then
        py_print B [Lit mark, Val (PStr key), Lit '': '', Val actual_value]
      else
        py_print B [Lit mark, Val (PStr key), Lit '': '', Val actual_value,
                    Lit '' (expected '', Val expected_value, Lit '')''])"

fun validate ::
  "builtins \<Rightarrow> pydict \<Rightarrow> pydict \<Rightarrow> string list \<Rightarrow> py_exception + string list" where
  "validate B extraction [] issues = Inr issues"
| "validate B extraction ((key, expected_value) # rest) issues =
     (case check_expectation B extraction key expected_value issues of
        Inl e \<Rightarrow> Inl e
      | Inr issues' \<Rightarrow>
          (case print_expectation B extraction key expected_value (issues' = issues) of
             Inl e \<Rightarrow> Inl e
           | Inr u \<Rightarrow> validate B extraction rest issues'))"

section \<open>The request invoker and the driver\<close>

text \<open>
  \<^verbatim>\<open>requests.post(...)\<close> followed by \<^verbatim>\<open>response.json()\<close> is the environment: a function
  from the JSON payload to the decoded body, or to the exception raised (no connection,
  timeout, a body that is not JSON). Every test case sends a different payload, so a
  function describes any sequence of answers within one run.
\<close>

type_synonym http = "pydict \<Rightarrow> py_exception + pyval"

definition call_ai_extraction ::
  "http \<Rightarrow> pyval \<Rightarrow> pyval \<Rightarrow> pyval \<Rightarrow> pyval \<Rightarrow> py_exception + pyval" where
  "call_ai_extraction post caption location_hint post_id posted_at =
     post [(''caption'', caption), (''locationHint'', location_hint),
           (''postId'', post_id), (''postedAt'', posted_at)]"

text \<open>
  The body of the \<^verbatim>\<open>try\<close> block of \<^verbatim>\<open>run_test\<close>, in its two steps: the request
  (the call of \<^verbatim>\<open>call_ai_extraction\<close> with the fields of \<^verbatim>\<open>input_data\<close>), and everything
  after it, from \<^verbatim>\<open>result.get("extraction", {})\<close> to the \<^verbatim>\<open>return\<close>. The field dump
  calls \<^verbatim>\<open>extraction.get\<close>, which raises when \<^verbatim>\<open>extraction\<close> is not a dictionary, and
  prints seventeen fields and the reasoning, one line each. The lines of the block that
  hold literal text only are left out, and so are the two lines after the loop: they
  print the status, and the issues, which are made of literal text and of keys that the
  loop has printed before.
\<close>

definition dumped_fields :: "string list" where
  "dumped_fields =
     [''isEvent'', ''eventDate'', ''eventEndDate'', ''eventTime'', ''endTime'',
      ''locationName'', ''isFree'', ''price'', ''priceMin'', ''priceMax'', ''confidence'',
      ''isRecurring'', ''recurrencePattern'', ''isUpdate'', ''updateType'',
      ''availabilityStatus'', ''locationStatus'']"

fun print_fields :: "builtins \<Rightarrow> pydict \<Rightarrow> string list \<Rightarrow> py_exception + unit" where
  "print_fields B extraction [] = Inr ()"
| "print_fields B extraction (f # fs) =
     (case py_print B [Lit (''  '' @ f @ '': ''), Val (dict_get extraction f)] of
        Inl e \<Rightarrow> Inl e
      | Inr u \<Rightarrow> print_fields B extraction fs)"

definition field_dump :: "builtins \<Rightarrow> pydict \<Rightarrow> py_exception + unit" where
  "field_dump B extraction =
     (case print_fields B extraction dumped_fields of
        Inl e \<Rightarrow> Inl e
      | Inr u \<Rightarrow>
          py_print B [Lit (CHR 0x0A # ''Reasoning: ''), Val (dict_get extraction ''reasoning'')])"

definition request_step :: "http \<Rightarrow> pydict \<Rightarrow> py_exception + pyval" where
  "request_step post input_data =
     (case dict_index input_data ''caption'' of
        Inl e \<Rightarrow> Inl e
      | Inr caption \<Rightarrow>
     (case dict_index input_data ''postId'' of
        Inl e \<Rightarrow> Inl e
      | Inr post_id \<Rightarrow>
     (case dict_index input_data ''postedAt'' of
        Inl e \<Rightarrow> Inl e
      | Inr posted_at \<Rightarrow>
          call_ai_extraction post caption (dict_get input_data ''locationHint'')
            post_id posted_at)))"

definition validation_step ::
  "builtins \<Rightarrow> string \<Rightarrow> pydict \<Rightarrow> pyval \<Rightarrow> py_exception + pyval" where
  "validation_step B test_id expected result =
     (case val_get_default result ''extraction'' (PDict []) of
        Inl e \<Rightarrow> Inl e
      | Inr extraction \<Rightarrow>
     (case extraction of
        PDict d \<Rightarrow>
          (case field_dump B d of
             Inl e \<Rightarrow> Inl e
           | Inr u \<Rightarrow>
          (case validate B d expected [] of
             Inl e \<Rightarrow> Inl e
           | Inr issues \<Rightarrow>
               (let status = (if length issues = 0 then ''PASS'' else ''FAIL'')
                in Inr (PDict [(''test_id'', PStr test_id),
                               (''status'', PStr status),
                               (''issues'', PList (map PStr issues)),
                               (''extraction'', extraction)]))))
      | _ \<Rightarrow> Inl (no_attribute extraction ''get'')))"

definition run_test_try ::
  "builtins \<Rightarrow> http \<Rightarrow> string \<Rightarrow> string \<Rightarrow> pydict \<Rightarrow> pydict \<Rightarrow> py_exception + pyval" where
  "run_test_try B post test_id description input_data expected =
     (case request_step post input_data of
        Inl e \<Rightarrow> Inl e
      | Inr result \<Rightarrow> validation_step B test_id expected result)"

text \<open>
  Every exception of the model is an \<^verbatim>\<open>Exception\<close>, so \<^verbatim>\<open>except Exception\<close> catches it.
  The handler prints the string of the exception, which holds no surrogate: the messages
  of Python quote text by its \<^verbatim>\<open>repr\<close>.
\<close>

definition run_test ::
  "builtins \<Rightarrow> http \<Rightarrow> string \<Rightarrow> string \<Rightarrow> pydict \<Rightarrow> pydict \<Rightarrow> pyval" where
  "run_test B post test_id description input_data expected =
     (case run_test_try B post test_id description input_data expected of
        Inr outcome \<Rightarrow> outcome
      | Inl e \<Rightarrow>
          PDict [(''test_id'', PStr test_id),
                 (''status'', PStr ''ERROR''),
                 (''issues'', PList [PStr (str_exc e)]),
                 (''extraction'', PNone)])"

text \<open>\<^verbatim>\<open>v[k]\<close> on a value that need not be a dictionary.\<close>

definition val_index :: "pyval \<Rightarrow> string \<Rightarrow> py_exception + pyval" where
  "val_index v k =
     (case v of
        PDict d \<Rightarrow> dict_index d k
      | _ \<Rightarrow> Inl (TypeError ([CHR 0x27] @ type_name v @ [CHR 0x27] @
                               '' object is not subscriptable'')))"

text \<open>The entries of the list \<^verbatim>\<open>tests\<close> of \<^verbatim>\<open>main\<close>.\<close>

record test_case =
  tc_id :: string
  tc_description :: string
  tc_input :: pydict
  tc_expected :: pydict

definition mk_input :: "string \<Rightarrow> string \<Rightarrow> string \<Rightarrow> string \<Rightarrow> pydict" where
  "mk_input c l p t =
     [(''caption'', PStr c), (''locationHint'', PStr l), (''postId'', PStr p),
      (''postedAt'', PStr t)]"

definition test01 :: test_case where
  "test01 = \<lparr>tc_id = ''01'', tc_description = ''Recurring Event - Every Friday'',
     tc_input = mk_input
       ''FREAKY FRIDAY Every Friday night at XX XX! Resident DJs spinning the best tracks. 10PM onwards. 500 presale / 800 door''
       ''XX XX Makati'' ''test-recurring-01'' ''2025-12-17T10:00:00+00:00'',
     tc_expected = [(''isEvent'', PBool True), (''isRecurring'', PBool True),
       (''eventTime'', PStr ''22:00:00''), (''confidence'', PStr ''>0.75'')]\<rparr>"

definition test02 :: test_case where
  "test02 = \<lparr>tc_id = ''02'', tc_description = ''Multi-day Event - Date Range'',
     tc_input = mk_input
       ''WEEKEND FESTIVAL! December 12-13, 2025 at SM Mall of Asia Concert Grounds. Two days of music, art, and fun! 1500 weekend pass''
       ''SM Mall of Asia'' ''test-multiday-01'' ''2025-12-10T08:00:00+00:00'',
     tc_expected = [(''isEvent'', PBool True), (''eventDate'', PStr ''2025-12-12''),
       (''eventEndDate'', PStr ''2025-12-13''), (''isRecurring'', PBool False)]\<rparr>"

definition test03 :: test_case where
  "test03 = \<lparr>tc_id = ''03'', tc_description = ''Midnight Crossing Event'',
     tc_input = mk_input
       ''ALL NIGHTER! December 20, 10PM - 4AM. The party continues till sunrise! 600 entrance''
       ''Poblacion Social Club'' ''test-midnight-01'' ''2025-12-15T08:00:00+00:00'',
     tc_expected = [(''isEvent'', PBool True), (''eventDate'', PStr ''2025-12-20''),
       (''eventTime'', PStr ''22:00:00''), (''endTime'', PStr ''04:00:00''),
       (''eventEndDate'', PStr ''2025-12-21'')]\<rparr>"

definition test04 :: test_case where
  "test04 = \<lparr>tc_id = ''04'', tc_description = ''Operating Hours - NOT AN EVENT'',
     tc_input = mk_input
       (''We're open! 6PM '' @ [CHR 0xE2, CHR 0x80, CHR 0x94] @
        '' Tuesdays to Saturdays. Come visit us for drinks and good vibes!'')
       ''The Backroom'' ''test-notevent-01'' ''2025-12-17T08:00:00+00:00'',
     tc_expected = [(''isEvent'', PBool False), (''confidence'', PStr ''<0.6'')]\<rparr>"

definition test05 :: test_case where
  "test05 = \<lparr>tc_id = ''05'', tc_description = ''Past Event Throwback'',
     tc_input = mk_input
       ''What an amazing night last Saturday! Thanks everyone who came out. Can't wait for the next one!''
       ''XX XX'' ''test-past-01'' ''2025-12-17T08:00:00+00:00'',
     tc_expected = [(''isEvent'', PBool False), (''confidence'', PStr ''<0.5'')]\<rparr>"

definition test06 :: test_case where
  "test06 = \<lparr>tc_id = ''06'', tc_description = ''Relative Date - Tomorrow'',
     tc_input = mk_input
       ''TOMORROW NIGHT! DJ set starting 9PM. Be there! 400 entrance''
       ''The Grid'' ''test-relative-01'' ''2025-12-17T10:00:00+00:00'',
     tc_expected = [(''isEvent'', PBool True), (''eventDate'', PStr ''2025-12-18''),
       (''eventTime'', PStr ''21:00:00'')]\<rparr>"

definition test07 :: test_case where
  "test07 = \<lparr>tc_id = ''07'', tc_description = ''Free Event'',
     tc_input = mk_input
       ''FREE ADMISSION! December 25, Christmas Party at The Park. No cover charge. Everyone welcome!''
       ''The Park'' ''test-price-01'' ''2025-12-15T08:00:00+00:00'',
     tc_expected = [(''isEvent'', PBool True), (''isFree'', PBool True),
       (''price'', PNone), (''eventDate'', PStr ''2025-12-25'')]\<rparr>"

definition test08 :: test_case where
  "test08 = \<lparr>tc_id = ''08'', tc_description = ''Price Range - Presale/Door'',
     tc_input = mk_input
       ''NEW YEAR'S EVE BASH! Dec 31. 800 presale / 1200 door. Get tickets now!''
       ''Valkyrie Nightclub'' ''test-price-02'' ''2025-12-15T08:00:00+00:00'',
     tc_expected = [(''isEvent'', PBool True), (''isFree'', PBool False),
       (''eventDate'', PStr ''2025-12-31'')]\<rparr>"

definition test09 :: test_case where
  "test09 = \<lparr>tc_id = ''09'', tc_description = ''Sold Out Status'',
     tc_input = mk_input
       ''SOLD OUT! December 20 concert at Smart Araneta. Join the waitlist for cancellations.''
       ''Smart Araneta Coliseum'' ''test-status-01'' ''2025-12-15T08:00:00+00:00'',
     tc_expected = [(''isEvent'', PBool True), (''availabilityStatus'', PStr ''sold_out''),
       (''eventDate'', PStr ''2025-12-20'')]\<rparr>"

definition test10 :: test_case where
  "test10 = \<lparr>tc_id = ''10'', tc_description = ''No Date - Should Reject'',
     tc_input = mk_input
       ''BIG ANNOUNCEMENT! Amazing lineup coming to Philippine Arena. Tickets on sale soon!''
       ''Philippine Arena'' ''test-missing-01'' ''2025-12-17T08:00:00+00:00'',
     tc_expected = [(''isEvent'', PBool False), (''eventDate'', PNone),
       (''confidence'', PStr ''<0.6'')]\<rparr>"

definition tests :: "test_case list" where
  "tests = [test01, test02, test03, test04, test05, test06, test07, test08, test09, test10]"



subsection \<open>Reading an outcome\<close>

definition outcome_status :: "pyval \<Rightarrow> pyval" where
  "outcome_status r = (case r of PDict d \<Rightarrow> dict_get d ''status'' | _ \<Rightarrow> PNone)"

definition outcome_issues :: "pyval \<Rightarrow> pyval" where
  "outcome_issues r = (case r of PDict d \<Rightarrow> dict_get d ''issues'' | _ \<Rightarrow> PNone)"

definition outcome_extraction :: "pyval \<Rightarrow> pyval" where
  "outcome_extraction r = (case r of PDict d \<Rightarrow> dict_get d ''extraction'' | _ \<Rightarrow> PNone)"

definition outcome_test_id :: "pyval \<Rightarrow> pyval" where
  "outcome_test_id r = (case r of PDict d \<Rightarrow> dict_get d ''test_id'' | _ \<Rightarrow> PNone)"

subsection \<open>A concrete environment\<close>

text \<open>
  For evaluating the model: \<^verbatim>\<open>float\<close> on the three threshold literals of the test list
  (the binary64 values nearest to 0.75, 0.6 and 0.5; the first and the last are exact),
  \<^verbatim>\<open>str.lower\<close> on ASCII text, the last words of the message of a
  \<^verbatim>\<open>UnicodeEncodeError\<close>, and a server that gives one answer to every request.
\<close>

definition float_literal :: "string \<Rightarrow> py_exception + pyfloat" where
  "float_literal s =
     (if s = ''0.75'' then Inr (Fin (3 / 4))
      else if s = ''0.6'' then Inr (Fin (5404319552844595 / 9007199254740992))
      else if s = ''0.5'' then Inr (Fin (1 / 2))
      else Inl (ValueError (''could not convert string to float: '' @
                            [CHR 0x27] @ s @ [CHR 0x27])))"

definition ascii_lower :: "string \<Rightarrow> string" where
  "ascii_lower s =
     map (\<lambda>c. if CHR ''A'' \<le> c \<and> c \<le> CHR ''Z'' then char_of (of_char c + (32::nat)) else c) s"

definition surrogate_message :: "part list \<Rightarrow> string" where
  "surrogate_message line = ''surrogates not allowed''"

definition ascii_builtins :: builtins where
  "ascii_builtins =
     \<lparr>py_float = float_literal, py_lower = ascii_lower,
      py_encode_error = surrogate_message\<rparr>"

definition const_post :: "py_exception + pyval \<Rightarrow> http" where
  "const_post answer payload = answer"

definition body_of :: "pydict \<Rightarrow> py_exception + pyval" where
  "body_of d = Inr (PDict [(''extraction'', PDict d)])"

text \<open>The call of \<^verbatim>\<open>run_test\<close> in the loop of \<^verbatim>\<open>main\<close>.\<close>

definition run_case :: "builtins \<Rightarrow> http \<Rightarrow> test_case \<Rightarrow> pyval" where
  "run_case B post t =
     run_test B post (tc_id t) (tc_description t) (tc_input t) (tc_expected t)"

text \<open>
  The issues that the check of one expectation records when it is run on its own, with
  an empty issues list (none when the check raises).
\<close>

definition key_issues :: "builtins \<Rightarrow> pydict \<Rightarrow> string \<times> pyval \<Rightarrow> string list" where
  "key_issues B extraction kv =
     (case check_expectation B extraction (fst kv) (snd kv) [] of
        Inr issues \<Rightarrow> issues
      | Inl e \<Rightarrow> [])"

text \<open>
  The issue that an expectation of the test list records when the field it names is
  missing from the extraction.
\<close>

definition absent_issue :: "string \<times> pyval \<Rightarrow> string list" where
  "absent_issue kv =
     (if snd kv = PNone then []
      else if fst kv = ''confidence'' then [''confidence validation failed'']
      else [fst kv @ '' mismatch''])"

section \<open>Basic facts\<close>

lemmas eval_defs =
  run_case_def run_test_def run_test_try_def request_step_def validation_step_def
  call_ai_extraction_def const_post_def body_of_def
  dict_index_def dict_get_def dict_get_default_def val_get_default_def val_index_def
  check_expectation_def check_threshold_def check_reasoning_def val_lower_def
  startswith_def str_in_def py_gt_def py_lt_def float_eq_def cmp_msg_def no_attribute_def
  ascii_builtins_def float_literal_def mk_input_def
  field_dump_def dumped_fields_def print_expectation_def py_print_def
  outcome_status_def outcome_issues_def outcome_extraction_def outcome_test_id_def

lemmas test_defs =
  test01_def test02_def test03_def test04_def test05_def
  test06_def test07_def test08_def test09_def test10_def

lemma outcome_fields:
  "outcome_test_id (PDict [(''test_id'', a), (''status'', b), (''issues'', c), (''extraction'', d)]) = a"
  "outcome_status (PDict [(''test_id'', a), (''status'', b), (''issues'', c), (''extraction'', d)]) = b"
  "outcome_issues (PDict [(''test_id'', a), (''status'', b), (''issues'', c), (''extraction'', d)]) = c"
  "outcome_extraction (PDict [(''test_id'', a), (''status'', b), (''issues'', c), (''extraction'', d)]) = d"
  by (simp_all add: outcome_test_id_def outcome_status_def outcome_issues_def
        outcome_extraction_def dict_get_def)

text \<open>What the validation step returns when it returns.\<close>

lemma validation_step_Inr:
  assumes "validation_step B tid want result = Inr r"
  shows "\<exists>d iss. val_get_default result ''extraction'' (PDict []) = Inr (PDict d) \<and>
     validate B d want [] = Inr iss \<and>
     r = PDict [(''test_id'', PStr tid),
                (''status'', PStr (if iss = [] then ''PASS'' else ''FAIL'')),
                (''issues'', PList (map PStr iss)), (''extraction'', PDict d)]"
proof (cases "val_get_default result ''extraction'' (PDict [])")
  case (Inl e)
  with assms show ?thesis by (simp add: validation_step_def)
next
  case (Inr x)
  show ?thesis
  proof (cases x)
    case (PDict d)
    show ?thesis
    proof (cases "field_dump B d")
      case (Inl e)
      with assms Inr PDict show ?thesis by (simp add: validation_step_def)
    next
      case dump: (Inr u)
      show ?thesis
      proof (cases "validate B d want []")
        case (Inl e)
        with assms Inr PDict dump show ?thesis by (simp add: validation_step_def)
      next
        case iss: (Inr iss)
        with assms Inr PDict dump show ?thesis by (simp add: validation_step_def Let_def)
      qed
    qed
  qed (use assms Inr in \<open>simp_all add: validation_step_def\<close>)
qed

text \<open>The two ways out of \<^verbatim>\<open>run_test\<close>: the handler, or the \<^verbatim>\<open>return\<close> of the \<^verbatim>\<open>try\<close> block.\<close>

lemma run_test_cases:
  obtains (error) e where "run_test_try B post tid desc inp want = Inl e"
      "run_test B post tid desc inp want =
         PDict [(''test_id'', PStr tid), (''status'', PStr ''ERROR''),
                (''issues'', PList [PStr (str_exc e)]), (''extraction'', PNone)]"
  | (checked) result d iss where
      "request_step post inp = Inr result"
      "val_get_default result ''extraction'' (PDict []) = Inr (PDict d)"
      "validate B d want [] = Inr iss"
      "run_test B post tid desc inp want =
         PDict [(''test_id'', PStr tid),
                (''status'', PStr (if iss = [] then ''PASS'' else ''FAIL'')),
                (''issues'', PList (map PStr iss)), (''extraction'', PDict d)]"
proof (cases "run_test_try B post tid desc inp want")
  case (Inl e)
  then have "run_test B post tid desc inp want =
         PDict [(''test_id'', PStr tid), (''status'', PStr ''ERROR''),
                (''issues'', PList [PStr (str_exc e)]), (''extraction'', PNone)]"
    by (simp add: run_test_def)
  with Inl show ?thesis by (rule error)
next
  case (Inr r)
  then have run: "run_test B post tid desc inp want = r"
    by (simp add: run_test_def)
  from Inr obtain result where req: "request_step post inp = Inr result"
    and val: "validation_step B tid want result = Inr r"
    by (auto simp: run_test_try_def split: sum.splits)
  from validation_step_Inr [OF val] obtain d iss where
    "val_get_default result ''extraction'' (PDict []) = Inr (PDict d)"
    "validate B d want [] = Inr iss"
    "r = PDict [(''test_id'', PStr tid),
                (''status'', PStr (if iss = [] then ''PASS'' else ''FAIL'')),
                (''issues'', PList (map PStr iss)), (''extraction'', PDict d)]"
    by blast
  with req run show ?thesis using checked by blast
qed

section \<open>The outcome of a test case\<close>

text \<open>
  Claim C3. For every outcome that \<^verbatim>\<open>run_test\<close> produces, whether the request succeeds
  or raises, the status is PASS if and only if the issues list is empty.
\<close>

theorem status_pass_iff_no_issues:
  "outcome_status (run_test B post tid desc inp want) = PStr ''PASS'' \<longleftrightarrow>
   outcome_issues (run_test B post tid desc inp want) = PList []"
proof (rule run_test_cases [of B post tid desc inp want])
  fix e
  assume "run_test B post tid desc inp want =
         PDict [(''test_id'', PStr tid), (''status'', PStr ''ERROR''),
                (''issues'', PList [PStr (str_exc e)]), (''extraction'', PNone)]"
  then show ?thesis by (simp add: outcome_fields)
next
  fix iss d
  assume "run_test B post tid desc inp want =
         PDict [(''test_id'', PStr tid),
                (''status'', PStr (if iss = [] then ''PASS'' else ''FAIL'')),
                (''issues'', PList (map PStr iss)), (''extraction'', PDict d)]"
  then show ?thesis by (cases "iss = []") (simp_all add: outcome_fields)
qed

theorem status_pass_iff_no_issues_witness:
  "outcome_status (run_test ascii_builtins
      (const_post (body_of [(''isEvent'', PBool True), (''eventDate'', PStr ''2025-12-18''),
                            (''eventTime'', PStr ''21:00:00'')]))
      ''06'' ''Relative Date - Tomorrow'' (tc_input test06) (tc_expected test06)) = PStr ''PASS''
   \<and> outcome_issues (run_test ascii_builtins
      (const_post (body_of [(''isEvent'', PBool True), (''eventDate'', PStr ''2025-12-18''),
                            (''eventTime'', PStr ''21:00:00'')]))
      ''06'' ''Relative Date - Tomorrow'' (tc_input test06) (tc_expected test06)) = PList []"
proof -
  have "outcome_status (run_test ascii_builtins
      (const_post (body_of [(''isEvent'', PBool True), (''eventDate'', PStr ''2025-12-18''),
                            (''eventTime'', PStr ''21:00:00'')]))
      ''06'' ''Relative Date - Tomorrow'' (tc_input test06) (tc_expected test06)) = PStr ''PASS''"
    by (simp add: eval_defs test06_def)
  then show ?thesis
    using status_pass_iff_no_issues [of ascii_builtins
      "const_post (body_of [(''isEvent'', PBool True), (''eventDate'', PStr ''2025-12-18''),
                            (''eventTime'', PStr ''21:00:00'')])"
      "''06''" "''Relative Date - Tomorrow''" "tc_input test06" "tc_expected test06"]
    by simp
qed

text \<open>
  Claim C4. Whenever an outcome has status ERROR, its extraction field is null and its
  issues list is the one-element list of the string of the exception that the \<^verbatim>\<open>try\<close> block
  raised; it holds no extraction data.
\<close>

theorem error_outcome_shape:
  assumes "outcome_status (run_test B post tid desc inp want) = PStr ''ERROR''"
  shows "outcome_extraction (run_test B post tid desc inp want) = PNone \<and>
         (\<exists>e. run_test_try B post tid desc inp want = Inl e \<and>
              outcome_issues (run_test B post tid desc inp want) = PList [PStr (str_exc e)])"
proof (rule run_test_cases [of B post tid desc inp want])
  fix e
  assume "run_test_try B post tid desc inp want = Inl e"
    and "run_test B post tid desc inp want =
         PDict [(''test_id'', PStr tid), (''status'', PStr ''ERROR''),
                (''issues'', PList [PStr (str_exc e)]), (''extraction'', PNone)]"
  then show ?thesis by (simp add: outcome_fields)
next
  fix iss d
  assume "run_test B post tid desc inp want =
         PDict [(''test_id'', PStr tid),
                (''status'', PStr (if iss = [] then ''PASS'' else ''FAIL'')),
                (''issues'', PList (map PStr iss)), (''extraction'', PDict d)]"
  then have "outcome_status (run_test B post tid desc inp want) \<noteq> PStr ''ERROR''"
    by (cases "iss = []") (simp_all add: outcome_fields)
  with assms show ?thesis by simp
qed

theorem error_outcome_shape_witness:
  "outcome_status (run_test ascii_builtins (const_post (Inl (RequestException ''timed out'')))
      ''01'' ''Recurring Event - Every Friday'' (tc_input test01) (tc_expected test01))
     = PStr ''ERROR''
   \<and> outcome_extraction (run_test ascii_builtins
      (const_post (Inl (RequestException ''timed out'')))
      ''01'' ''Recurring Event - Every Friday'' (tc_input test01) (tc_expected test01)) = PNone
   \<and> outcome_issues (run_test ascii_builtins
      (const_post (Inl (RequestException ''timed out'')))
      ''01'' ''Recurring Event - Every Friday'' (tc_input test01) (tc_expected test01))
     = PList [PStr ''timed out'']"
proof -
  have h: "outcome_status (run_test ascii_builtins
      (const_post (Inl (RequestException ''timed out'')))
      ''01'' ''Recurring Event - Every Friday'' (tc_input test01) (tc_expected test01))
     = PStr ''ERROR''"
    by (simp add: eval_defs test01_def)
  have t: "run_test_try ascii_builtins (const_post (Inl (RequestException ''timed out'')))
      ''01'' ''Recurring Event - Every Friday'' (tc_input test01) (tc_expected test01)
     = Inl (RequestException ''timed out'')"
    by (simp add: eval_defs test01_def)
  from error_outcome_shape [OF h] t h show ?thesis by simp
qed

section \<open>The three comparison modes\<close>

text \<open>Only \<^verbatim>\<open>None\<close> equals \<^verbatim>\<open>None\<close>.\<close>

lemma py_eq_None_right: "py_eq a PNone \<longleftrightarrow> a = PNone"
  by (cases a) (simp_all add: float_eq_def)

text \<open>The last branch of the loop body: exact equality.\<close>

lemma check_expectation_equality:
  assumes "key \<noteq> ''confidence'' \<or> \<not> isinstance_str v" and "key \<noteq> ''reasoning_contains''"
  shows "check_expectation B ex key v acc =
         Inr (if py_eq (dict_get ex key) v then acc else acc @ [key @ '' mismatch''])"
  using assms by (auto simp: check_expectation_def Let_def)

text \<open>
  Claim C5. In exact-equality mode an expected value \<^verbatim>\<open>None\<close> asks for an actual value
  that is null or absent, not one that is merely falsy: for every key other than
  \<^verbatim>\<open>reasoning_contains\<close> (a key with expected value \<^verbatim>\<open>None\<close> is never in threshold mode),
  the check records the issue \<^verbatim>\<open><key> mismatch\<close> unless the lookup yields \<^verbatim>\<open>None\<close>; so
  an actual \<^verbatim>\<open>0\<close> or \<^verbatim>\<open>""\<close> is a mismatch.
\<close>

theorem none_expectation_requires_null:
  assumes "key \<noteq> ''reasoning_contains''"
  shows "check_expectation B ex key PNone acc =
         Inr (if dict_get ex key = PNone then acc else acc @ [key @ '' mismatch''])"
  using assms by (simp add: check_expectation_equality py_eq_None_right)

theorem none_expectation_requires_null_witness:
  "''price'' \<noteq> ''reasoning_contains''
   \<and> check_expectation ascii_builtins [(''price'', PInt 0)] ''price'' PNone [] = Inr [''price mismatch'']
   \<and> check_expectation ascii_builtins [(''eventDate'', PStr [])] ''eventDate'' PNone []
       = Inr [''eventDate mismatch'']
   \<and> check_expectation ascii_builtins [(''isFree'', PBool True)] ''price'' PNone [] = Inr []
   \<and> check_expectation ascii_builtins [(''price'', PNone)] ''price'' PNone [] = Inr []"
  using none_expectation_requires_null [of "''price''" ascii_builtins "[(''price'', PInt 0)]" "[]"]
    none_expectation_requires_null [of "''eventDate''" ascii_builtins "[(''eventDate'', PStr [])]" "[]"]
    none_expectation_requires_null [of "''price''" ascii_builtins "[(''isFree'', PBool True)]" "[]"]
    none_expectation_requires_null [of "''price''" ascii_builtins "[(''price'', PNone)]" "[]"]
  by (simp add: dict_get_def)

text \<open>
  Claim C10. For the key \<^verbatim>\<open>confidence\<close> with an expected string that begins with neither
  \<^verbatim>\<open>>\<close> nor \<^verbatim>\<open><\<close>, the loop body checks nothing and records no issue, whatever the
  actual confidence is; exact equality is not applied, and such an expectation alone
  gives an empty issues list.
\<close>

theorem confidence_without_comparator_unchecked:
  assumes "\<not> startswith s ''>''" and "\<not> startswith s ''<''"
  shows "check_expectation B ex ''confidence'' (PStr s) acc = Inr acc
         \<and> validate B ex [(''confidence'', PStr s)] [] = Inr []"
  using assms
  by (simp add: check_expectation_def check_threshold_def print_expectation_def Let_def)

theorem confidence_without_comparator_unchecked_witness:
  "\<not> startswith ''0.8'' ''>'' \<and> \<not> startswith ''0.8'' ''<''
   \<and> check_expectation ascii_builtins [(''confidence'', PFloat (Fin (1 / 10)))]
         ''confidence'' (PStr ''0.8'') [] = Inr []
   \<and> validate ascii_builtins [(''confidence'', PFloat (Fin (1 / 10)))]
         [(''confidence'', PStr ''0.8'')] [] = Inr []"
proof -
  have a: "\<not> startswith ''0.8'' ''>''" and b: "\<not> startswith ''0.8'' ''<''"
    by (simp_all add: startswith_def)
  from confidence_without_comparator_unchecked
         [OF a b, of ascii_builtins "[(''confidence'', PFloat (Fin (1 / 10)))]" "[]"] a b
  show ?thesis by blast
qed

text \<open>
  Substring mode on a reasoning that is a string \<^verbatim>\<open>r\<close>, or is missing, with \<^verbatim>\<open>r\<close> the empty
  string: no issue is recorded if and only if \<^verbatim>\<open>s\<close> lower-cased occurs in \<^verbatim>\<open>r\<close> lower-cased.
\<close>

lemma check_expectation_reasoning:
  assumes "dict_get_default ex ''reasoning'' (PStr []) = PStr r"
  shows "check_expectation B ex ''reasoning_contains'' (PStr s) acc =
         Inr (if str_in (py_lower B s) (py_lower B r) then acc
              else acc @ [''Reasoning missing expected text''])"
  using assms by (simp add: check_expectation_def check_reasoning_def val_lower_def Let_def)

lemma lower_recurring:
  "str_in (ascii_lower ''recurring'') (ascii_lower ''This is a RECURRING event'')"
  by code_simp

lemma check_expectation_reasoning_example:
  "check_expectation ascii_builtins [(''reasoning'', PStr ''This is a RECURRING event'')]
     ''reasoning_contains'' (PStr ''recurring'') [] = Inr []"
proof -
  have h: "dict_get_default [(''reasoning'', PStr ''This is a RECURRING event'')] ''reasoning''
             (PStr []) = PStr ''This is a RECURRING event''"
    by (simp add: dict_get_default_def)
  from check_expectation_reasoning [OF h, of ascii_builtins "''recurring''" "[]"]
    lower_recurring
  show ?thesis by (simp add: ascii_builtins_def)
qed

text \<open>
  Claim C7. Substring mode is meant to record no issue exactly when the expected string,
  lower-cased, occurs in the reasoning, lower-cased, and to take a reasoning that is not
  there for the empty string. The source reads the field by
  \<^verbatim>\<open>extraction.get('reasoning', '')\<close>, and the default covers a missing key only: a
  reasoning that is present and null reaches \<^verbatim>\<open>.lower()\<close>, which raises an
  \<^verbatim>\<open>AttributeError\<close>. With the expected mapping \<^verbatim>\<open>{"reasoning_contains": "recurring"}\<close> the
  outcome for a null reasoning is ERROR, with the message of the exception for only issue,
  where the same response without the key gives FAIL with the issue
  \<^verbatim>\<open>Reasoning missing expected text\<close>.
\<close>

theorem null_reasoning_raises:
  "run_test ascii_builtins
     (const_post (body_of [(''isEvent'', PBool True), (''reasoning'', PNone)]))
     ''01'' ''Recurring Event - Every Friday'' (tc_input test01)
     [(''reasoning_contains'', PStr ''recurring'')]
   = PDict [(''test_id'', PStr ''01''), (''status'', PStr ''ERROR''),
            (''issues'', PList [PStr ([CHR 0x27] @ ''NoneType'' @ [CHR 0x27] @
                                      '' object has no attribute '' @
                                      [CHR 0x27] @ ''lower'' @ [CHR 0x27])]),
            (''extraction'', PNone)]
   \<and> run_test ascii_builtins
     (const_post (body_of [(''isEvent'', PBool True)]))
     ''01'' ''Recurring Event - Every Friday'' (tc_input test01)
     [(''reasoning_contains'', PStr ''recurring'')]
   = PDict [(''test_id'', PStr ''01''), (''status'', PStr ''FAIL''),
            (''issues'', PList [PStr ''Reasoning missing expected text'']),
            (''extraction'', PDict [(''isEvent'', PBool True)])]"
proof -
  have n: "\<not> str_in (ascii_lower ''recurring'') (ascii_lower [])"
    by code_simp
  then show ?thesis
    by (simp add: eval_defs test01_def del: str_in_def)
qed

text \<open>
  Claim C1. Threshold mode is meant to record no issue when the actual confidence is not
  null and lies on the right side of the threshold. The guard of the source is the truth
  value of the actual confidence, so a confidence of \<^verbatim>\<open>0.0\<close> fails the expectation
  \<^verbatim>\<open><0.5\<close> of test 05 although \<^verbatim>\<open>0.0 < 0.5\<close>: the outcome is FAIL with the issue
  \<^verbatim>\<open>confidence validation failed\<close>.
\<close>

theorem zero_confidence_fails_below_threshold:
  "run_case ascii_builtins
     (const_post (body_of [(''isEvent'', PBool False), (''confidence'', PFloat (Fin 0))])) test05 =
   PDict [(''test_id'', PStr ''05''), (''status'', PStr ''FAIL''),
          (''issues'', PList [PStr ''confidence validation failed'']),
          (''extraction'', PDict [(''isEvent'', PBool False), (''confidence'', PFloat (Fin 0))])]"
  by (simp add: eval_defs test05_def)

section \<open>The validation loop\<close>

text \<open>
  A check only appends to the issues list, and appends at most one entry.
\<close>

lemma check_threshold_acc:
  "check_threshold B a key s acc =
     (case check_threshold B a key s [] of Inl e \<Rightarrow> Inl e | Inr l \<Rightarrow> Inr (acc @ l))"
  by (simp add: check_threshold_def split: sum.splits)

lemma check_reasoning_acc:
  "check_reasoning B ex v acc =
     (case check_reasoning B ex v [] of Inl e \<Rightarrow> Inl e | Inr l \<Rightarrow> Inr (acc @ l))"
  by (simp add: check_reasoning_def split: sum.splits)

lemma check_expectation_acc:
  "check_expectation B ex key v acc =
     (case check_expectation B ex key v [] of Inl e \<Rightarrow> Inl e | Inr l \<Rightarrow> Inr (acc @ l))"
proof -
  consider (thr) s where "key = ''confidence''" "v = PStr s"
    | (rea) "key = ''reasoning_contains''" "\<not> (key = ''confidence'' \<and> isinstance_str v)"
    | (eq) "key \<noteq> ''reasoning_contains''" "\<not> (key = ''confidence'' \<and> isinstance_str v)"
    by (cases v) auto
  then show ?thesis
  proof cases
    case thr
    then show ?thesis
      using check_threshold_acc [of B "dict_get ex key" key s acc]
      by (simp add: check_expectation_def Let_def)
  next
    case rea
    then show ?thesis
      using check_reasoning_acc [of B ex v acc]
      by (simp add: check_expectation_def Let_def)
  next
    case eq
    then show ?thesis by (cases v) (auto simp: check_expectation_def Let_def)
  qed
qed

lemma check_threshold_length:
  "check_threshold B a key s [] = Inr l \<Longrightarrow> length l \<le> 1"
  by (auto simp: check_threshold_def split: sum.splits if_splits)

lemma check_reasoning_length:
  "check_reasoning B ex v [] = Inr l \<Longrightarrow> length l \<le> 1"
  by (auto simp: check_reasoning_def split: sum.splits if_splits)

lemma check_expectation_length:
  assumes "check_expectation B ex key v [] = Inr l"
  shows "length l \<le> 1"
proof -
  consider (thr) s where "key = ''confidence''" "v = PStr s"
    | (rea) "key = ''reasoning_contains''" "\<not> (key = ''confidence'' \<and> isinstance_str v)"
    | (eq) "key \<noteq> ''reasoning_contains''" "\<not> (key = ''confidence'' \<and> isinstance_str v)"
    by (cases v) auto
  then show ?thesis
  proof cases
    case thr
    with assms show ?thesis
      using check_threshold_length [of B "dict_get ex key" key s l]
      by (simp add: check_expectation_def Let_def)
  next
    case rea
    with assms show ?thesis
      using check_reasoning_length [of B ex v l]
      by (simp add: check_expectation_def Let_def)
  next
    case eq
    with assms show ?thesis
      by (cases v) (auto simp: check_expectation_def Let_def split: if_splits)
  qed
qed

text \<open>
  When the loop ends without an exception, every check has run, and the issues list is
  the concatenation, in the order of the keys, of what each check records.
\<close>

lemma validate_Inr:
  "validate B ex want acc = Inr iss \<Longrightarrow>
   iss = acc @ concat (map (key_issues B ex) want) \<and>
   (\<forall>kv \<in> set want. \<exists>l. check_expectation B ex (fst kv) (snd kv) [] = Inr l)"
proof (induction want arbitrary: acc)
  case Nil
  then show ?case by simp
next
  case (Cons kv want)
  obtain k v where kv: "kv = (k, v)" by (cases kv)
  show ?case
  proof (cases "check_expectation B ex k v []")
    case (Inl e)
    then have "check_expectation B ex k v acc = Inl e"
      using check_expectation_acc [of B ex k v acc] by simp
    with Cons.prems kv show ?thesis by simp
  next
    case (Inr l)
    then have "check_expectation B ex k v acc = Inr (acc @ l)"
      using check_expectation_acc [of B ex k v acc] by simp
    with Cons.prems kv have "validate B ex want (acc @ l) = Inr iss"
      by (simp split: sum.splits)
    from Cons.IH [OF this] Inr kv show ?thesis by (simp add: key_issues_def)
  qed
qed

text \<open>Threshold mode, for a threshold that \<^verbatim>\<open>float\<close> accepts.\<close>

lemma check_expectation_gt:
  assumes "py_float B s = Inr t"
  shows "check_expectation B ex ''confidence'' (PStr (CHR ''>'' # s)) acc =
     (if truthy (dict_get ex ''confidence'') then
        (case num_of (dict_get ex ''confidence'') of
           None \<Rightarrow> Inl (TypeError (cmp_msg ''>'' (dict_get ex ''confidence'')))
         | Some x \<Rightarrow>
             Inr (if float_lt t x then acc else acc @ [''confidence validation failed'']))
      else Inr (acc @ [''confidence validation failed'']))"
  using assms
  by (simp add: check_expectation_def check_threshold_def startswith_def py_gt_def Let_def
      split: option.splits)

lemma check_expectation_lt:
  assumes "py_float B s = Inr t"
  shows "check_expectation B ex ''confidence'' (PStr (CHR ''<'' # s)) acc =
     (if truthy (dict_get ex ''confidence'') then
        (case num_of (dict_get ex ''confidence'') of
           None \<Rightarrow> Inl (TypeError (cmp_msg ''<'' (dict_get ex ''confidence'')))
         | Some x \<Rightarrow>
             Inr (if float_lt x t then acc else acc @ [''confidence validation failed'']))
      else Inr (acc @ [''confidence validation failed'']))"
  using assms
  by (simp add: check_expectation_def check_threshold_def startswith_def py_lt_def Let_def
      split: option.splits)

lemma check_expectation_float_error:
  assumes "py_float B s = Inl e" and "c = CHR ''>'' \<or> c = CHR ''<''"
  shows "check_expectation B ex ''confidence'' (PStr (c # s)) acc = Inl e"
  using assms
  by (auto simp: check_expectation_def check_threshold_def startswith_def Let_def)

lemma test01_issues:
  assumes "validate B ex (tc_expected test01) [] = Inr iss"
  shows "\<exists>t. py_float B ''0.75'' = Inr t \<and>
     iss = (if py_eq (dict_get ex ''isEvent'') (PBool True) then [] else [''isEvent mismatch''])
         @ (if py_eq (dict_get ex ''isRecurring'') (PBool True) then []
            else [''isRecurring mismatch''])
         @ (if py_eq (dict_get ex ''eventTime'') (PStr ''22:00:00'') then []
            else [''eventTime mismatch''])
         @ (if truthy (dict_get ex ''confidence'') \<and> py_gt (dict_get ex ''confidence'') t = Inr True
            then [] else [''confidence validation failed''])"
proof -
  from validate_Inr [OF assms]
  have cat: "iss = concat (map (key_issues B ex) (tc_expected test01))"
    and each: "\<forall>kv \<in> set (tc_expected test01).
                 \<exists>l. check_expectation B ex (fst kv) (snd kv) [] = Inr l"
    by simp_all
  show ?thesis
  proof (cases "py_float B ''0.75''")
    case (Inl e)
    with each show ?thesis
      by (simp add: test01_def check_expectation_float_error)
  next
    case (Inr t)
    with cat each show ?thesis
      by (auto simp: test01_def key_issues_def check_expectation_equality
          check_expectation_gt py_gt_def split: if_splits option.splits)
  qed
qed

text \<open>
  Claim C6 as stated fails: a check that raises ends the loop, and the handler replaces
  the issues recorded so far by the string of the exception. With the expected mapping of
  test 01, a wrong \<^verbatim>\<open>isEvent\<close> and the confidence \<^verbatim>\<open>"high"\<close>, the check of \<^verbatim>\<open>isEvent\<close> fails on
  its own, yet the outcome is ERROR and its only issue is the message of the
  \<^verbatim>\<open>TypeError\<close> of the comparison.
\<close>

theorem exception_discards_recorded_issues:
  "check_expectation ascii_builtins
       [(''isEvent'', PBool False), (''isRecurring'', PBool True),
        (''eventTime'', PStr ''22:00:00''), (''confidence'', PStr ''high'')]
       ''isEvent'' (PBool True) [] = Inr [''isEvent mismatch'']
   \<and> run_case ascii_builtins
       (const_post (body_of [(''isEvent'', PBool False), (''isRecurring'', PBool True),
          (''eventTime'', PStr ''22:00:00''), (''confidence'', PStr ''high'')])) test01
     = PDict [(''test_id'', PStr ''01''), (''status'', PStr ''ERROR''),
              (''issues'', PList [PStr (cmp_msg ''>'' (PStr ''high''))]),
              (''extraction'', PNone)]"
  by (simp add: eval_defs test01_def)

text \<open>
  Claim C6, amended. Whenever the outcome of \<^verbatim>\<open>run_test\<close> is not ERROR, every key of the
  expected mapping has been checked, each check records at most one issue, and the issues
  list of the outcome is the concatenation of these records in the order of the keys;
  the status is FAIL exactly when it is not empty. For the expected mapping of test 01
  the list consists of the issue of \<^verbatim>\<open>isEvent\<close>, of \<^verbatim>\<open>isRecurring\<close>, of \<^verbatim>\<open>eventTime\<close> and of
  \<^verbatim>\<open>confidence\<close>, each present exactly when its own check fails, so one failing check
  gives FAIL with that key's issue and no other.
\<close>

theorem every_key_checked_in_order:
  assumes "outcome_status (run_test B post tid desc inp want) \<noteq> PStr ''ERROR''"
  shows "\<exists>ex iss. outcome_extraction (run_test B post tid desc inp want) = PDict ex
      \<and> validate B ex want [] = Inr iss
      \<and> iss = concat (map (key_issues B ex) want)
      \<and> (\<forall>kv \<in> set want. \<exists>l. check_expectation B ex (fst kv) (snd kv) [] = Inr l \<and> length l \<le> 1)
      \<and> outcome_issues (run_test B post tid desc inp want) = PList (map PStr iss)
      \<and> outcome_status (run_test B post tid desc inp want)
          = PStr (if iss = [] then ''PASS'' else ''FAIL'')
      \<and> (want = tc_expected test01 \<longrightarrow>
           (\<exists>t. py_float B ''0.75'' = Inr t \<and>
             iss = (if py_eq (dict_get ex ''isEvent'') (PBool True) then []
                    else [''isEvent mismatch''])
                 @ (if py_eq (dict_get ex ''isRecurring'') (PBool True) then []
                    else [''isRecurring mismatch''])
                 @ (if py_eq (dict_get ex ''eventTime'') (PStr ''22:00:00'') then []
                    else [''eventTime mismatch''])
                 @ (if truthy (dict_get ex ''confidence'')
                       \<and> py_gt (dict_get ex ''confidence'') t = Inr True
                    then [] else [''confidence validation failed''])))"
proof (rule run_test_cases [of B post tid desc inp want])
  fix e
  assume "run_test B post tid desc inp want =
         PDict [(''test_id'', PStr tid), (''status'', PStr ''ERROR''),
                (''issues'', PList [PStr (str_exc e)]), (''extraction'', PNone)]"
  with assms show ?thesis by (simp add: outcome_fields)
next
  fix result d iss
  assume val: "validate B d want [] = Inr iss"
    and run: "run_test B post tid desc inp want =
         PDict [(''test_id'', PStr tid),
                (''status'', PStr (if iss = [] then ''PASS'' else ''FAIL'')),
                (''issues'', PList (map PStr iss)), (''extraction'', PDict d)]"
  from validate_Inr [OF val] have cat: "iss = concat (map (key_issues B d) want)"
    and each: "\<forall>kv \<in> set want. \<exists>l. check_expectation B d (fst kv) (snd kv) [] = Inr l"
    by simp_all
  from each have one:
    "\<forall>kv \<in> set want. \<exists>l. check_expectation B d (fst kv) (snd kv) [] = Inr l \<and> length l \<le> 1"
    using check_expectation_length by blast
  have t01: "want = tc_expected test01 \<longrightarrow>
           (\<exists>t. py_float B ''0.75'' = Inr t \<and>
             iss = (if py_eq (dict_get d ''isEvent'') (PBool True) then []
                    else [''isEvent mismatch''])
                 @ (if py_eq (dict_get d ''isRecurring'') (PBool True) then []
                    else [''isRecurring mismatch''])
                 @ (if py_eq (dict_get d ''eventTime'') (PStr ''22:00:00'') then []
                    else [''eventTime mismatch''])
                 @ (if truthy (dict_get d ''confidence'')
                       \<and> py_gt (dict_get d ''confidence'') t = Inr True
                    then [] else [''confidence validation failed'']))"
    using val test01_issues [of B d iss] by blast
  have "outcome_extraction (run_test B post tid desc inp want) = PDict d"
    and "outcome_issues (run_test B post tid desc inp want) = PList (map PStr iss)"
    and "outcome_status (run_test B post tid desc inp want)
          = PStr (if iss = [] then ''PASS'' else ''FAIL'')"
    by (simp_all add: run outcome_fields)
  with val cat one t01 show ?thesis by blast
qed

theorem every_key_checked_in_order_witness:
  "outcome_status (run_test ascii_builtins
      (const_post (body_of [(''isEvent'', PBool True), (''isRecurring'', PBool False),
         (''eventTime'', PStr ''22:00:00''), (''confidence'', PFloat (Fin (9 / 10)))]))
      ''01'' ''Recurring Event - Every Friday'' (tc_input test01) (tc_expected test01))
     \<noteq> PStr ''ERROR''
   \<and> outcome_status (run_test ascii_builtins
      (const_post (body_of [(''isEvent'', PBool True), (''isRecurring'', PBool False),
         (''eventTime'', PStr ''22:00:00''), (''confidence'', PFloat (Fin (9 / 10)))]))
      ''01'' ''Recurring Event - Every Friday'' (tc_input test01) (tc_expected test01))
     = PStr ''FAIL''
   \<and> outcome_issues (run_test ascii_builtins
      (const_post (body_of [(''isEvent'', PBool True), (''isRecurring'', PBool False),
         (''eventTime'', PStr ''22:00:00''), (''confidence'', PFloat (Fin (9 / 10)))]))
      ''01'' ''Recurring Event - Every Friday'' (tc_input test01) (tc_expected test01))
     = PList [PStr ''isRecurring mismatch'']"
proof -
  have h: "outcome_status (run_test ascii_builtins
      (const_post (body_of [(''isEvent'', PBool True), (''isRecurring'', PBool False),
         (''eventTime'', PStr ''22:00:00''), (''confidence'', PFloat (Fin (9 / 10)))]))
      ''01'' ''Recurring Event - Every Friday'' (tc_input test01) (tc_expected test01))
     \<noteq> PStr ''ERROR''"
    by (simp add: eval_defs test01_def)
  from every_key_checked_in_order [OF h] obtain ex iss where
    e: "outcome_extraction (run_test ascii_builtins
      (const_post (body_of [(''isEvent'', PBool True), (''isRecurring'', PBool False),
         (''eventTime'', PStr ''22:00:00''), (''confidence'', PFloat (Fin (9 / 10)))]))
      ''01'' ''Recurring Event - Every Friday'' (tc_input test01) (tc_expected test01)) = PDict ex"
    and i: "iss = concat (map (key_issues ascii_builtins ex) (tc_expected test01))"
    and o: "outcome_issues (run_test ascii_builtins
      (const_post (body_of [(''isEvent'', PBool True), (''isRecurring'', PBool False),
         (''eventTime'', PStr ''22:00:00''), (''confidence'', PFloat (Fin (9 / 10)))]))
      ''01'' ''Recurring Event - Every Friday'' (tc_input test01) (tc_expected test01))
       = PList (map PStr iss)"
    and s: "outcome_status (run_test ascii_builtins
      (const_post (body_of [(''isEvent'', PBool True), (''isRecurring'', PBool False),
         (''eventTime'', PStr ''22:00:00''), (''confidence'', PFloat (Fin (9 / 10)))]))
      ''01'' ''Recurring Event - Every Friday'' (tc_input test01) (tc_expected test01))
       = PStr (if iss = [] then ''PASS'' else ''FAIL'')"
    by blast
  from e have "ex = [(''isEvent'', PBool True), (''isRecurring'', PBool False),
         (''eventTime'', PStr ''22:00:00''), (''confidence'', PFloat (Fin (9 / 10)))]"
    by (simp add: eval_defs test01_def)
  with i have "iss = [''isRecurring mismatch'']"
    by (simp add: key_issues_def eval_defs test01_def)
  with h o s show ?thesis by simp
qed

section \<open>The run\<close>






section \<open>Exceptions in the validation step\<close>

lemma tests_cases:
  assumes "t \<in> set tests"
  obtains "t = test01" | "t = test02" | "t = test03" | "t = test04" | "t = test05"
    | "t = test06" | "t = test07" | "t = test08" | "t = test09" | "t = test10"
  using assms by (auto simp: tests_def)

text \<open>The lines of the field dump are printed exactly when no dumped value is a string
  with a surrogate.\<close>

lemma print_fields_Inr_iff:
  "print_fields B ex fs = Inr () \<longleftrightarrow> (\<forall>f \<in> set fs. encodable (dict_get ex f))"
  by (induction fs) (auto simp: py_print_def)

lemma field_dump_Inr_iff:
  "field_dump B ex = Inr () \<longleftrightarrow>
   (\<forall>f \<in> set (dumped_fields @ [''reasoning'']). encodable (dict_get ex f))"
proof (cases "print_fields B ex dumped_fields")
  case (Inl e)
  then have "print_fields B ex dumped_fields \<noteq> Inr ()" by simp
  then have n: "\<not> (\<forall>f \<in> set dumped_fields. encodable (dict_get ex f))"
    using print_fields_Inr_iff [of B ex dumped_fields] by blast
  from Inl have "field_dump B ex = Inl e" by (simp add: field_dump_def)
  with n show ?thesis by auto
next
  case (Inr u)
  then have pf: "print_fields B ex dumped_fields = Inr ()" by simp
  then have a: "\<forall>f \<in> set dumped_fields. encodable (dict_get ex f)"
    using print_fields_Inr_iff [of B ex dumped_fields] by blast
  have "field_dump B ex = Inr () \<longleftrightarrow> encodable (dict_get ex ''reasoning'')"
    by (simp add: field_dump_def pf py_print_def)
  with a show ?thesis by auto
qed


text \<open>The line of an iteration is printed when its key and its two values can be.\<close>

lemma print_expectation_ok:
  assumes "encodable (PStr key)" and "encodable (dict_get ex key)" and "encodable v"
  shows "print_expectation B ex key v ok = Inr ()"
  using assms by (auto simp: print_expectation_def py_print_def Let_def split: pyval.splits)


lemma validation_step_dict:
  assumes "val_get_default result ''extraction'' (PDict []) = Inr (PDict ex)"
  shows "validation_step B tid want result =
     (case field_dump B ex of
        Inl e \<Rightarrow> Inl e
      | Inr u \<Rightarrow>
     (case validate B ex want [] of
        Inl e \<Rightarrow> Inl e
      | Inr iss \<Rightarrow>
          Inr (PDict [(''test_id'', PStr tid),
                      (''status'', PStr (if iss = [] then ''PASS'' else ''FAIL'')),
                      (''issues'', PList (map PStr iss)), (''extraction'', PDict ex)])))"
  using assms by (simp add: validation_step_def Let_def split: sum.splits)





section \<open>A response without an extraction\<close>

lemma validate_empty_extraction:
  assumes "t \<in> set tests"
    and f1: "py_float B ''0.75'' = Inr t1" and f2: "py_float B ''0.6'' = Inr t2"
    and f3: "py_float B ''0.5'' = Inr t3"
  shows "validate B [] (tc_expected t) [] = Inr (concat (map absent_issue (tc_expected t)))
         \<and> concat (map absent_issue (tc_expected t)) \<noteq> []"
  using assms(1)
proof (cases rule: tests_cases)
  case 1
  then show ?thesis
    by (simp add: test01_def check_expectation_equality check_expectation_gt [OF f1]
        print_expectation_ok dict_get_def absent_issue_def)
next
  case 2
  then show ?thesis
    by (simp add: test02_def check_expectation_equality print_expectation_ok dict_get_def
        absent_issue_def)
next
  case 3
  then show ?thesis
    by (simp add: test03_def check_expectation_equality print_expectation_ok dict_get_def
        absent_issue_def)
next
  case 4
  then show ?thesis
    by (simp add: test04_def check_expectation_equality check_expectation_lt [OF f2]
        print_expectation_ok dict_get_def absent_issue_def)
next
  case 5
  then show ?thesis
    by (simp add: test05_def check_expectation_equality check_expectation_lt [OF f3]
        print_expectation_ok dict_get_def absent_issue_def)
next
  case 6
  then show ?thesis
    by (simp add: test06_def check_expectation_equality print_expectation_ok dict_get_def
        absent_issue_def)
next
  case 7
  then show ?thesis
    by (simp add: test07_def check_expectation_equality print_expectation_ok dict_get_def
        absent_issue_def)
next
  case 8
  then show ?thesis
    by (simp add: test08_def check_expectation_equality print_expectation_ok dict_get_def
        absent_issue_def)
next
  case 9
  then show ?thesis
    by (simp add: test09_def check_expectation_equality print_expectation_ok dict_get_def
        absent_issue_def)
next
  case 10
  then show ?thesis
    by (simp add: test10_def check_expectation_equality check_expectation_lt [OF f2]
        print_expectation_ok dict_get_def absent_issue_def)
qed

text \<open>The same issues for any expected mapping in exact-equality mode.\<close>

lemma validate_empty_equality:
  assumes "\<forall>kv \<in> set want. fst kv \<noteq> ''confidence'' \<and> fst kv \<noteq> ''reasoning_contains''
             \<and> encodable (PStr (fst kv)) \<and> encodable (snd kv)"
  shows "validate B [] want acc = Inr (acc @ concat (map absent_issue want))"
  using assms
proof (induction want arbitrary: acc)
  case Nil
  then show ?case by simp
next
  case (Cons kv want)
  obtain k v where kv: "kv = (k, v)" by (cases kv)
  with Cons.prems have k: "k \<noteq> ''confidence''" "k \<noteq> ''reasoning_contains''"
    and e: "encodable (PStr k)" "encodable v"
    and rest: "\<forall>kv \<in> set want. fst kv \<noteq> ''confidence'' \<and> fst kv \<noteq> ''reasoning_contains''
             \<and> encodable (PStr (fst kv)) \<and> encodable (snd kv)"
    by simp_all
  have n: "dict_get [] k = PNone" by (simp add: dict_get_def)
  have p: "print_expectation B [] k v ok = Inr ()" for ok
    using e n by (simp add: print_expectation_ok)
  show ?case
    using k kv Cons.IH [OF rest]
    by (simp add: check_expectation_equality n p absent_issue_def)
qed

text \<open>
  Claim C8. For every JSON object returned by the request step that lacks the key
  \<^verbatim>\<open>extraction\<close>, nothing is raised: the extraction is the empty mapping, every field
  lookup yields \<^verbatim>\<open>None\<close>, and validation records ordinary issues, so that for each of the
  ten test cases of the harness (with \<^verbatim>\<open>float\<close> accepting the three threshold literals)
  the outcome is FAIL, not ERROR, with one issue, in key order, for every expected key
  whose expected value is not \<^verbatim>\<open>None\<close>. The same issues are recorded for any expected
  mapping whose keys are in exact-equality mode and can be printed.
\<close>

theorem missing_extraction_key_fails_fixed_tests:
  assumes "t \<in> set tests"
    and "py_float B ''0.75'' = Inr t1" and "py_float B ''0.6'' = Inr t2"
    and "py_float B ''0.5'' = Inr t3"
    and "request_step post (tc_input t) = Inr (PDict resp)"
    and "map_of resp ''extraction'' = None"
  shows "val_get_default (PDict resp) ''extraction'' (PDict []) = Inr (PDict [])
       \<and> (\<forall>k. dict_get [] k = PNone)
       \<and> run_case B post t =
           PDict [(''test_id'', PStr (tc_id t)), (''status'', PStr ''FAIL''),
                  (''issues'', PList (map PStr (concat (map absent_issue (tc_expected t))))),
                  (''extraction'', PDict [])]
       \<and> concat (map absent_issue (tc_expected t)) \<noteq> []
       \<and> (\<forall>want. (\<forall>kv \<in> set want. fst kv \<noteq> ''confidence''
                       \<and> fst kv \<noteq> ''reasoning_contains''
                       \<and> encodable (PStr (fst kv)) \<and> encodable (snd kv)) \<longrightarrow>
             validate B [] want [] = Inr (concat (map absent_issue want)))"
proof -
  have g: "val_get_default (PDict resp) ''extraction'' (PDict []) = Inr (PDict [])"
    using assms(6) by (simp add: val_get_default_def dict_get_default_def)
  have l: "\<forall>k. dict_get [] k = PNone" by (simp add: dict_get_def)
  have d: "field_dump B [] = Inr ()"
    using field_dump_Inr_iff [of B "[]"] l by simp
  from validate_empty_extraction [OF assms(1-4)]
  have v: "validate B [] (tc_expected t) [] = Inr (concat (map absent_issue (tc_expected t)))"
    and n: "concat (map absent_issue (tc_expected t)) \<noteq> []" by simp_all
  have r: "run_case B post t =
           PDict [(''test_id'', PStr (tc_id t)), (''status'', PStr ''FAIL''),
                  (''issues'', PList (map PStr (concat (map absent_issue (tc_expected t))))),
                  (''extraction'', PDict [])]"
    using n by (simp add: run_case_def run_test_def run_test_try_def assms(5)
        validation_step_dict [OF g] d v)
  have e: "\<forall>want. (\<forall>kv \<in> set want. fst kv \<noteq> ''confidence''
                       \<and> fst kv \<noteq> ''reasoning_contains''
                       \<and> encodable (PStr (fst kv)) \<and> encodable (snd kv)) \<longrightarrow>
             validate B [] want [] = Inr (concat (map absent_issue want))"
    using validate_empty_equality [of _ B "[]"] by simp
  from g l r n e show ?thesis by blast
qed

theorem missing_extraction_key_fails_fixed_tests_witness:
  "test07 \<in> set tests
   \<and> py_float ascii_builtins ''0.75'' = Inr (Fin (3 / 4))
   \<and> py_float ascii_builtins ''0.6'' = Inr (Fin (5404319552844595 / 9007199254740992))
   \<and> py_float ascii_builtins ''0.5'' = Inr (Fin (1 / 2))
   \<and> request_step (const_post (Inr (PDict [(''error'', PStr ''bad request'')]))) (tc_input test07)
       = Inr (PDict [(''error'', PStr ''bad request'')])
   \<and> map_of [(''error'', PStr ''bad request'')] ''extraction'' = None
   \<and> run_case ascii_builtins (const_post (Inr (PDict [(''error'', PStr ''bad request'')]))) test07
       = PDict [(''test_id'', PStr ''07''), (''status'', PStr ''FAIL''),
                (''issues'', PList [PStr ''isEvent mismatch'', PStr ''isFree mismatch'',
                                    PStr ''eventDate mismatch'']),
                (''extraction'', PDict [])]"
proof -
  have a: "test07 \<in> set tests" by (simp add: tests_def)
  have f1: "py_float ascii_builtins ''0.75'' = Inr (Fin (3 / 4))"
    and f2: "py_float ascii_builtins ''0.6'' = Inr (Fin (5404319552844595 / 9007199254740992))"
    and f3: "py_float ascii_builtins ''0.5'' = Inr (Fin (1 / 2))"
    by (simp_all add: ascii_builtins_def float_literal_def)
  have r: "request_step (const_post (Inr (PDict [(''error'', PStr ''bad request'')])))
             (tc_input test07) = Inr (PDict [(''error'', PStr ''bad request'')])"
    by (simp add: eval_defs test07_def)
  have m: "map_of [(''error'', PStr ''bad request'')] ''extraction'' = None" by simp
  have i: "concat (map absent_issue (tc_expected test07))
             = [''isEvent mismatch'', ''isFree mismatch'', ''eventDate mismatch'']"
    by (simp add: test07_def absent_issue_def)
  have d: "tc_id test07 = ''07''" by (simp add: test07_def)
  from missing_extraction_key_fails_fixed_tests [OF a f1 f2 f3 r m]
  have "run_case ascii_builtins (const_post (Inr (PDict [(''error'', PStr ''bad request'')]))) test07
       = PDict [(''test_id'', PStr (tc_id test07)), (''status'', PStr ''FAIL''),
                (''issues'', PList (map PStr (concat (map absent_issue (tc_expected test07))))),
                (''extraction'', PDict [])]"
    by blast
  with i d have "run_case ascii_builtins
         (const_post (Inr (PDict [(''error'', PStr ''bad request'')]))) test07
       = PDict [(''test_id'', PStr ''07''), (''status'', PStr ''FAIL''),
                (''issues'', PList [PStr ''isEvent mismatch'', PStr ''isFree mismatch'',
                                    PStr ''eventDate mismatch'']),
                (''extraction'', PDict [])]"
    by simp
  with a f1 f2 f3 r m show ?thesis by blast
qed

end
